theory Spec2Isabelle
  imports Complex_Main "HOL-Library.Word" "HOL-Library.AList" "HOL-Library.Code_Target_Nat"
begin

unbundle bit_operations_syntax

section \<open>Python values and string methods used by xarray_io.py\<close>

text \<open>
  A \<open>char\<close> is a code point below 256; strings with other code points are outside the
  model. On these, \<open>lower\<close>, \<open>strip\<close>, the whitespace \<open>split\<close>, \<open>splitlines\<close> and the
  number readers below are the Python 3 ones. \<open>upper\<close> and \<open>title\<close> are the Python 3
  methods on ASCII text only (beyond ASCII their results can leave the code points below
  256); what is stated about them is stated for ASCII text.
\<close>

text \<open>
  A Python float is modelled by the exact value it denotes (or one of the three special
  values). The sign of zero is not modelled.
\<close>

datatype pyfloat = Fin rat | PInf | NInf | NaN

datatype pyval = VNone | VStr string | VInt int | VFloat pyfloat

text \<open>
  \<open>str.isspace\<close> on one character: TAB, LF, VT, FF, CR, FS, GS, RS, US, space, NEL and
  the no-break space.
\<close>

definition is_space :: "char \<Rightarrow> bool" where
  "is_space c \<longleftrightarrow> c \<in> set [CHR 0x09, CHR 0x0A, CHR 0x0B, CHR 0x0C, CHR 0x0D,
                            CHR 0x1C, CHR 0x1D, CHR 0x1E, CHR 0x1F, CHR 0x20,
                            CHR 0x85, CHR 0xA0]"

definition upper_letters :: string where
  "upper_letters = ''ABCDEFGHIJKLMNOPQRSTUVWXYZ''"

definition lower_letters :: string where
  "lower_letters = ''abcdefghijklmnopqrstuvwxyz''"

definition is_upper :: "char \<Rightarrow> bool" where
  "is_upper c \<longleftrightarrow> c \<in> set upper_letters"

definition is_lower :: "char \<Rightarrow> bool" where
  "is_lower c \<longleftrightarrow> c \<in> set lower_letters"

text \<open>
  The upper-case letters of Latin-1 beyond ASCII, \<open>U+00C0\<close> to \<open>U+00DE\<close> without the
  multiplication sign, and their lower-case forms 32 places further.
\<close>

definition latin1_upper :: string where
  "latin1_upper =
     [CHR 0xC0, CHR 0xC1, CHR 0xC2, CHR 0xC3, CHR 0xC4, CHR 0xC5, CHR 0xC6, CHR 0xC7,
      CHR 0xC8, CHR 0xC9, CHR 0xCA, CHR 0xCB, CHR 0xCC, CHR 0xCD, CHR 0xCE, CHR 0xCF,
      CHR 0xD0, CHR 0xD1, CHR 0xD2, CHR 0xD3, CHR 0xD4, CHR 0xD5, CHR 0xD6,
      CHR 0xD8, CHR 0xD9, CHR 0xDA, CHR 0xDB, CHR 0xDC, CHR 0xDD, CHR 0xDE]"

definition latin1_lower :: string where
  "latin1_lower =
     [CHR 0xE0, CHR 0xE1, CHR 0xE2, CHR 0xE3, CHR 0xE4, CHR 0xE5, CHR 0xE6, CHR 0xE7,
      CHR 0xE8, CHR 0xE9, CHR 0xEA, CHR 0xEB, CHR 0xEC, CHR 0xED, CHR 0xEE, CHR 0xEF,
      CHR 0xF0, CHR 0xF1, CHR 0xF2, CHR 0xF3, CHR 0xF4, CHR 0xF5, CHR 0xF6,
      CHR 0xF8, CHR 0xF9, CHR 0xFA, CHR 0xFB, CHR 0xFC, CHR 0xFD, CHR 0xFE]"

definition lower_char :: "char \<Rightarrow> char" where
  "lower_char c =
     (case map_of (zip (upper_letters @ latin1_upper) (lower_letters @ latin1_lower)) c of
        Some d \<Rightarrow> d
      | None \<Rightarrow> c)"

definition upper_char :: "char \<Rightarrow> char" where
  "upper_char c = (case map_of (zip lower_letters upper_letters) c of Some d \<Rightarrow> d | None \<Rightarrow> c)"

text \<open>\<open>s.lower()\<close>, and \<open>s.upper()\<close> for ASCII text.\<close>

definition lower :: "string \<Rightarrow> string" where
  "lower s = map lower_char s"

definition upper :: "string \<Rightarrow> string" where
  "upper s = map upper_char s"

text \<open>\<open>s.strip()\<close>.\<close>

definition strip :: "string \<Rightarrow> string" where
  "strip s = rev (dropWhile is_space (rev (dropWhile is_space s)))"

text \<open>\<open>s.split()\<close>: the maximal runs of non-whitespace characters.\<close>

fun split_ws :: "string \<Rightarrow> string \<Rightarrow> string list" where
  "split_ws cur [] = (if cur = [] then [] else [cur])"
| "split_ws cur (c # cs) =
     (if is_space c then (if cur = [] then split_ws [] cs else cur # split_ws [] cs)
      else split_ws (cur @ [c]) cs)"

text \<open>\<open>sep.join(xs)\<close>.\<close>

fun join :: "string \<Rightarrow> string list \<Rightarrow> string" where
  "join sep [] = []"
| "join sep [x] = x"
| "join sep (x # y # ys) = x @ sep @ join sep (y # ys)"

text \<open>\<open>s.split(sep)\<close> for a one-character separator: never the empty list.\<close>

fun split_on :: "char \<Rightarrow> string \<Rightarrow> string list" where
  "split_on sep [] = [[]]"
| "split_on sep (c # cs) =
     (if c = sep then [] # split_on sep cs
      else (case split_on sep cs of [] \<Rightarrow> [[c]] | w # ws \<Rightarrow> (c # w) # ws))"

text \<open>
  \<open>s.splitlines()\<close>: a line ends at LF, CR, CR LF, VT, FF, FS, GS, RS or NEL; the line
  ends are dropped and a final line end starts no further line.
\<close>

definition is_linebreak :: "char \<Rightarrow> bool" where
  "is_linebreak c \<longleftrightarrow> c \<in> set [CHR 0x0A, CHR 0x0B, CHR 0x0C, CHR 0x0D, CHR 0x1C, CHR 0x1D, CHR 0x1E,
                                CHR 0x85]"

fun splitlines_acc :: "string \<Rightarrow> string \<Rightarrow> string list" where
  "splitlines_acc cur [] = (if cur = [] then [] else [cur])"
| "splitlines_acc cur (c # cs) =
     (if c = CHR 0x0D then
        (case cs of
           [] \<Rightarrow> [cur]
         | d # ds \<Rightarrow> if d = CHR 0x0A then cur # splitlines_acc [] ds
                     else cur # splitlines_acc [] (d # ds))
      else if is_linebreak c then cur # splitlines_acc [] cs
      else splitlines_acc (cur @ [c]) cs)"

definition splitlines :: "string \<Rightarrow> string list" where
  "splitlines s = splitlines_acc [] s"

text \<open>
  \<open>s.title()\<close>: a letter that follows a letter is lower-cased, any other letter is
  upper-cased.
\<close>

fun title_acc :: "bool \<Rightarrow> string \<Rightarrow> string" where
  "title_acc prev [] = []"
| "title_acc prev (c # cs) =
     (if is_lower c then (if prev then c else upper_char c) # title_acc True cs
      else if is_upper c then (if prev then lower_char c else c) # title_acc True cs
      else c # title_acc False cs)"

definition title :: "string \<Rightarrow> string" where
  "title s = title_acc False s"

text \<open>\<open>sub in s\<close> for strings.\<close>

fun contains :: "string \<Rightarrow> string \<Rightarrow> bool" where
  "contains sub [] = (sub = [])"
| "contains sub (c # cs) = (take (length sub) (c # cs) = sub \<or> contains sub cs)"

text \<open>\<open>s.endswith(suffix)\<close>.\<close>

definition endswith :: "string \<Rightarrow> string \<Rightarrow> bool" where
  "endswith s suffix = (length suffix \<le> length s \<and> drop (length s - length suffix) s = suffix)"

text \<open>Truth value of a Python object, as \<open>not x\<close> and \<open>x or y\<close> test it.\<close>

fun truthy :: "pyval \<Rightarrow> bool" where
  "truthy VNone = False"
| "truthy (VStr s) = (s \<noteq> [])"
| "truthy (VInt i) = (i \<noteq> 0)"
| "truthy (VFloat f) = (f \<noteq> Fin 0)"

section \<open>Errors\<close>

text \<open>
  Every \<open>raise\<close> of the module and every exception of a builtin it calls is one
  constructor. \<open>MissingKeys\<close> and \<open>BadDataScale\<close> are both \<open>ValueError\<close> in the
  source (lines 113 and 119); \<open>RgbNotHandled\<close> and \<open>Not2D\<close> are both
  \<open>NotImplementedError\<close> (lines 121 and 69).
\<close>

datatype error =
    MissingKeys "string set"
  | BadDataScale
  | RgbNotHandled
  | Not2D
  | AttributeError
  | TypeError
  | KeyError string
  | IntParseError string
  | FloatParseError string
  | DepMissing
  | TasMissing
  | NegativeDimension
  | FileNotFound string
  | DatasetNeedsInputs
  | StructError
  | OverflowError

datatype exc_class =
  ValueError_cls | NotImplementedError_cls | AttributeError_cls | TypeError_cls
  | KeyError_cls | OSError_cls | StructError_cls | OverflowError_cls

fun exc_class_of :: "error \<Rightarrow> exc_class" where
  "exc_class_of (MissingKeys ks) = ValueError_cls"
| "exc_class_of BadDataScale = ValueError_cls"
| "exc_class_of RgbNotHandled = NotImplementedError_cls"
| "exc_class_of Not2D = NotImplementedError_cls"
| "exc_class_of AttributeError = AttributeError_cls"
| "exc_class_of TypeError = TypeError_cls"
| "exc_class_of (KeyError k) = KeyError_cls"
| "exc_class_of (IntParseError s) = ValueError_cls"
| "exc_class_of (FloatParseError s) = ValueError_cls"
| "exc_class_of DepMissing = ValueError_cls"
| "exc_class_of TasMissing = ValueError_cls"
| "exc_class_of NegativeDimension = ValueError_cls"
| "exc_class_of (FileNotFound p) = OSError_cls"
| "exc_class_of DatasetNeedsInputs = ValueError_cls"
| "exc_class_of StructError = StructError_cls"
| "exc_class_of OverflowError = OverflowError_cls"

section \<open>Module constants\<close>

definition OK_DATA_SCALES :: "string list" where
  "OK_DATA_SCALES = [''continuous'', ''categorical'', ''Boolean'', ''rgb'']"

definition OPTIONAL_DEP_FIELDS :: "string list" where
  "OPTIONAL_DEP_FIELDS = [''display_min'', ''display_max'', ''metadata_entry'', ''projection'',
     ''preferred_palette'', ''palette_nonlinearity'', ''byte_order'', ''nodata'']"

definition REQUIRED_DEP_FIELDS :: "string list" where
  "REQUIRED_DEP_FIELDS = [''max'', ''min'', ''north'', ''south'', ''east'', ''west'',
     ''cols'', ''rows'', ''dtype'', ''z_units'', ''xy_units'', ''data_scale'']"

definition FLOAT_DEP_FIELDS :: "string list" where
  "FLOAT_DEP_FIELDS = [''Min'', ''Max'', ''North'', ''South'', ''East'', ''West'',
     ''Display Min'', ''Display Max'']"

definition INT_DEP_FIELDS :: "string list" where
  "INT_DEP_FIELDS = [''Cols'', ''Rows'', ''Stacks'']"

definition UPPER_STR_FIELDS :: "string list" where
  "UPPER_STR_FIELDS = [''Data Type'', ''Byte Order'']"

section \<open>Attribute normalisation (case_insensitive_attrs)\<close>

text \<open>\<open>_lower_key(k)\<close>: \<open>'_'.join(k.lower().split())\<close>.\<close>

definition lower_key :: "string \<Rightarrow> string" where
  "lower_key k = join ''_'' (split_ws [] (lower k))"

text \<open>
  A dictionary is an association list in insertion order: \<open>d[k] = v\<close> is
  \<open>AList.update k v d\<close> (an existing key keeps its place), \<open>d.get(k)\<close> is
  \<open>map_of d k\<close>.
\<close>

type_synonym attrs = "(string \<times> pyval) list"

text \<open>
  Lines 97 to 99. The array's attributes come in the dictionary's iteration order: when
  two keys normalise to the same name the later one overwrites the earlier.
\<close>

definition lower_all :: "attrs \<Rightarrow> string \<Rightarrow> attrs" where
  "lower_all raw typ =
     foldl (\<lambda>m (k, v). AList.update (lower_key k) v m) [(''dtype'', VStr typ)] raw"

text \<open>Lines 100 to 103, for one of the two unit keys.\<close>

definition fill_units :: "string \<Rightarrow> attrs \<Rightarrow> attrs" where
  "fill_units k m =
     (case (map_of m k, map_of m ''units'') of
        (None, Some u) \<Rightarrow> AList.update k u m
      | _ \<Rightarrow> m)"

text \<open>Lines 104 to 107: both assignments write the key \<open>palette_nonlinearity\<close>.\<close>

definition fill_palette :: "attrs \<Rightarrow> attrs" where
  "fill_palette m =
     (let m1 = (if map_of m ''preferred_palette'' = None
                then AList.update ''palette_nonlinearity'' (VStr ''high_relief.pal'') m else m)
      in if map_of m1 ''palette_nonlinearity'' = None
         then AList.update ''palette_nonlinearity'' (VFloat (Fin 1)) m1 else m1)"

text \<open>Lines 114 to 116.\<close>

definition fill_optional :: "attrs \<Rightarrow> attrs" where
  "fill_optional m =
     foldl (\<lambda>a k. if map_of a k = None then AList.update k (VStr []) a else a) m
       OPTIONAL_DEP_FIELDS"

text \<open>
  Line 117, \<open>(lower.get('data_scale') or '').lower()\<close>: a false value gives the empty
  string, a true value that is not a string has no method \<open>lower\<close>.
\<close>

definition data_scale_of :: "attrs \<Rightarrow> error + string" where
  "data_scale_of m =
     (case map_of m ''data_scale'' of
        None \<Rightarrow> Inr []
      | Some v \<Rightarrow>
          if \<not> truthy v then Inr []
          else (case v of VStr s \<Rightarrow> Inr (lower s) | _ \<Rightarrow> Inl AttributeError))"

text \<open>Lines 97 to 107: the dictionary before the required keys are checked.\<close>

definition backfill :: "attrs \<Rightarrow> string \<Rightarrow> attrs" where
  "backfill raw typ =
     fill_palette (fill_units ''z_units'' (fill_units ''xy_units'' (lower_all raw typ)))"

definition case_insensitive_attrs :: "attrs \<Rightarrow> string \<Rightarrow> error + attrs" where
  "case_insensitive_attrs raw typ =
     (let m = backfill raw typ;
          missing = filter (\<lambda>k. map_of m k = None) REQUIRED_DEP_FIELDS
      in if missing \<noteq> [] then Inl (MissingKeys (set missing))
         else let m' = fill_optional m
              in (case data_scale_of m' of
                    Inl e \<Rightarrow> Inl e
                  | Inr data_scale \<Rightarrow>
                      if data_scale \<notin> set OK_DATA_SCALES then Inl BadDataScale
                      else if data_scale = ''rgb'' then Inl RgbNotHandled
                      else Inr m'))"

text \<open>The value a successful result holds under a key; \<open>None\<close> for an error too.\<close>

definition result_attr :: "error + attrs \<Rightarrow> string \<Rightarrow> pyval option" where
  "result_attr r k = (case r of Inl e \<Rightarrow> None | Inr m \<Rightarrow> map_of m k)"

text \<open>The keys of the array's attributes as the normaliser sees them.\<close>

definition lowered_keys :: "attrs \<Rightarrow> string set" where
  "lowered_keys raw = lower_key ` fst ` set raw"

section \<open>The builtins int, float and str on numbers\<close>

definition is_digit :: "char \<Rightarrow> bool" where
  "is_digit c \<longleftrightarrow> c \<in> set ''0123456789''"

definition digit_val :: "char \<Rightarrow> nat" where
  "digit_val c = (case map_of (zip ''0123456789'' [0, 1, 2, 3, 4, 5, 6, 7, 8, 9]) c of
                    Some d \<Rightarrow> d | None \<Rightarrow> 0)"

text \<open>
  A digit part of a numeric literal (Python 3.6 and later): digits, with single
  underscores between digits only. The flag says that the previous character was a digit.
\<close>

fun digits_us :: "bool \<Rightarrow> string \<Rightarrow> bool" where
  "digits_us prev [] = prev"
| "digits_us prev (c # cs) =
     (if is_digit c then digits_us True cs
      else if c = CHR ''_'' \<and> prev then digits_us False cs
      else False)"

definition digitpart :: "string \<Rightarrow> bool" where
  "digitpart s = digits_us False s"

definition digits_value :: "string \<Rightarrow> nat" where
  "digits_value s = foldl (\<lambda>a c. 10 * a + digit_val c) 0 (filter is_digit s)"

text \<open>An optional sign: whether it is a minus, and the rest.\<close>

definition split_sign :: "string \<Rightarrow> bool \<times> string" where
  "split_sign s =
     (case s of
        [] \<Rightarrow> (False, [])
      | c # cs \<Rightarrow> if c = CHR ''-'' then (True, cs)
                  else if c = CHR ''+'' then (False, cs) else (False, s))"

text \<open>\<open>int(s)\<close> for a string: \<open>None\<close> where Python raises \<open>ValueError\<close>.\<close>

definition py_int :: "string \<Rightarrow> int option" where
  "py_int s =
     (let (neg, body) = split_sign (strip s)
      in if digitpart body
         then Some (if neg then - int (digits_value body) else int (digits_value body))
         else None)"

text \<open>The text before the first character satisfying \<open>P\<close>, and the text after it if any.\<close>

definition break_at :: "(char \<Rightarrow> bool) \<Rightarrow> string \<Rightarrow> string \<times> string option" where
  "break_at P s =
     (takeWhile (\<lambda>c. \<not> P c) s,
      case dropWhile (\<lambda>c. \<not> P c) s of [] \<Rightarrow> None | c # rest \<Rightarrow> Some rest)"

text \<open>
  A decimal literal without sign, \<open>digits [. [digits]] [e [sign] digits]\<close> or
  \<open>. digits [e [sign] digits]\<close>, and its exact value.
\<close>

definition mantissa_ok :: "string \<Rightarrow> bool" where
  "mantissa_ok m =
     (case break_at (\<lambda>c. c = CHR ''.'') m of
        (ip, None) \<Rightarrow> digitpart ip
      | (ip, Some fp) \<Rightarrow>
          (ip = [] \<or> digitpart ip) \<and> (fp = [] \<or> digitpart fp) \<and> \<not> (ip = [] \<and> fp = []))"

definition mantissa_value :: "string \<Rightarrow> rat" where
  "mantissa_value m =
     (case break_at (\<lambda>c. c = CHR ''.'') m of
        (ip, None) \<Rightarrow> of_nat (digits_value ip)
      | (ip, Some fp) \<Rightarrow>
          of_nat (digits_value ip) + of_nat (digits_value fp) / 10 ^ length (filter is_digit fp))"

definition decimal_literal :: "string \<Rightarrow> rat option" where
  "decimal_literal s =
     (case break_at (\<lambda>c. c = CHR ''e'' \<or> c = CHR ''E'') s of
        (m, None) \<Rightarrow> if mantissa_ok m then Some (mantissa_value m) else None
      | (m, Some ex) \<Rightarrow>
          (let (eneg, eb) = split_sign ex
           in if mantissa_ok m \<and> digitpart eb
              then Some (if eneg then mantissa_value m / 10 ^ digits_value eb
                         else mantissa_value m * 10 ^ digits_value eb)
              else None))"

text \<open>
  The binary64 number nearest to a value, ties to even; beyond the largest one, infinity.
  \<open>floor_log2 a\<close> is the exponent of the power of two at or below a positive \<open>a\<close>.
\<close>

fun bitlen :: "nat \<Rightarrow> nat" where
  "bitlen n = (if n = 0 then 0 else Suc (bitlen (n div 2)))"

declare bitlen.simps [simp del]

definition pow2 :: "int \<Rightarrow> rat" where
  "pow2 k = (if 0 \<le> k then 2 ^ nat k else 1 / 2 ^ nat (- k))"

definition floor_log2 :: "rat \<Rightarrow> int" where
  "floor_log2 a =
     (let (n, d) = quotient_of a; k = int (bitlen (nat n)) - int (bitlen (nat d))
      in if pow2 k \<le> a then k else k - 1)"

definition round_half_even :: "rat \<Rightarrow> int" where
  "round_half_even q =
     (let f = \<lfloor>q\<rfloor>; r = q - of_int f
      in if r < 1 / 2 then f else if 1 / 2 < r then f + 1 else if even f then f else f + 1)"

definition f64_round :: "rat \<Rightarrow> pyfloat" where
  "f64_round q =
     (if q = 0 then Fin 0
      else let a = \<bar>q\<bar>; e = max (floor_log2 a) (- 1022);
               m = round_half_even (a / pow2 (e - 52));
               v = of_int m * pow2 (e - 52)
           in if pow2 1024 \<le> v then (if q < 0 then NInf else PInf)
              else Fin (if q < 0 then - v else v))"

text \<open>
  \<open>float(s)\<close> for a string: \<open>None\<close> where Python raises \<open>ValueError\<close>, else the
  binary64 number nearest to the literal.
\<close>

definition py_float :: "string \<Rightarrow> pyfloat option" where
  "py_float s =
     (let (neg, body) = split_sign (strip s)
      in if lower body = ''inf'' \<or> lower body = ''infinity'' then Some (if neg then NInf else PInf)
         else if lower body = ''nan'' then Some NaN
         else (case decimal_literal body of
                 None \<Rightarrow> None
               | Some q \<Rightarrow> Some (f64_round (if neg then - q else q))))"

text \<open>\<open>str(n)\<close> for an integer.\<close>

fun str_nat :: "nat \<Rightarrow> string" where
  "str_nat n =
     (if n < 10 then [''0123456789'' ! n]
      else str_nat (n div 10) @ [''0123456789'' ! (n mod 10)])"

definition str_int :: "int \<Rightarrow> string" where
  "str_int i = (if i < 0 then CHR ''-'' # str_nat (nat (- i)) else str_nat (nat i))"

text \<open>
  The text a replacement field \<open>{key}\<close> of \<open>str.format\<close> gives for a value. For a
  float that is the shortest decimal text that reads back as the same binary64 number; the
  printer of floats is a parameter of the model.
\<close>

fun format_value :: "(pyfloat \<Rightarrow> string) \<Rightarrow> pyval \<Rightarrow> string" where
  "format_value float_str VNone = ''None''"
| "format_value float_str (VStr s) = s"
| "format_value float_str (VInt i) = str_int i"
| "format_value float_str (VFloat f) = float_str f"

section \<open>Reading a header (_from_dep)\<close>

text \<open>
  Lines 152 to 160 for one line of the header: the key and the typed value, or the
  \<open>ValueError\<close> of \<open>int\<close> or \<open>float\<close>. A line without a colon splits into one part,
  which is the key, and its value is the empty string.
\<close>

definition line_key :: "string \<Rightarrow> string" where
  "line_key line = title (strip (hd (split_on (CHR '':'') (strip line))))"

definition line_value :: "string \<Rightarrow> string" where
  "line_value line = strip (join '':'' (tl (split_on (CHR '':'') (strip line))))"

definition parse_line :: "string \<Rightarrow> error + string \<times> pyval" where
  "parse_line line =
     (let key = line_key line; v = line_value line
      in if key \<in> set INT_DEP_FIELDS
         then (case py_int v of None \<Rightarrow> Inl (IntParseError v) | Some i \<Rightarrow> Inr (key, VInt i))
         else if key \<in> set FLOAT_DEP_FIELDS
         then (case py_float v of None \<Rightarrow> Inl (FloatParseError v) | Some f \<Rightarrow> Inr (key, VFloat f))
         else if key \<notin> set UPPER_STR_FIELDS then Inr (key, VStr (upper v))
         else Inr (key, VStr v))"

text \<open>
  Lines 161 to 167: a repeated \<open>Metadata Entry\<close> is appended to the value already there
  after a line feed; any other key is overwritten.
\<close>

definition store_line :: "attrs \<Rightarrow> string \<times> pyval \<Rightarrow> error + attrs" where
  "store_line attrs kv =
     (case kv of (key, v) \<Rightarrow>
        if key = ''Metadata Entry'' then
          (case map_of attrs key of
             None \<Rightarrow> Inr (AList.update key v attrs)
           | Some old \<Rightarrow>
               (case (old, v) of
                  (VStr a, VStr b) \<Rightarrow> Inr (AList.update key (VStr (a @ [CHR 0x0A] @ b)) attrs)
                | _ \<Rightarrow> Inl TypeError))
        else Inr (AList.update key v attrs))"

fun read_lines :: "attrs \<Rightarrow> string list \<Rightarrow> error + attrs" where
  "read_lines attrs [] = Inr attrs"
| "read_lines attrs (line # rest) =
     (case parse_line line of
        Inl e \<Rightarrow> Inl e
      | Inr kv \<Rightarrow>
          (case store_line attrs kv of
             Inl e \<Rightarrow> Inl e
           | Inr attrs' \<Rightarrow> read_lines attrs' rest))"

text \<open>\<open>_from_dep\<close> on the text of the header file.\<close>

definition from_dep_text :: "string \<Rightarrow> error + attrs" where
  "from_dep_text content = read_lines [] (splitlines content)"

section \<open>Arrays and their samples\<close>

text \<open>
  The arrays of the data model: 16-bit integers, 32-bit floats (each sample is its IEEE
  bit pattern) and the 64-bit floats that the no-data masker widens integers to (each
  sample is its value). The samples are kept flat, in row-major order.
\<close>

datatype cells = I16 "16 word list" | F32 "32 word list" | F64 "pyfloat list"

record ndarray =
  nd_shape :: "nat list"
  nd_data :: cells

text \<open>\<open>arr.dtype.name\<close>.\<close>

fun dtype_name :: "cells \<Rightarrow> string" where
  "dtype_name (I16 ws) = ''int16''"
| "dtype_name (F32 bs) = ''float32''"
| "dtype_name (F64 vs) = ''float64''"

text \<open>\<open>_get_dtype\<close>, with the entries of \<open>DTYPES\<close> written out.\<close>

definition get_dtype :: "string \<Rightarrow> string \<times> string" where
  "get_dtype dtype_str =
     (if contains ''float'' (lower dtype_str) then (''float'', ''f4'') else (''integer'', ''i2''))"

text \<open>
  The value of a binary32 bit pattern \<open>n\<close>: sign in bit 31, exponent in bits 23 to 30,
  fraction below.
\<close>

definition f32_value :: "32 word \<Rightarrow> pyfloat" where
  "f32_value w =
     (let n = unat w; e = n div 2 ^ 23 mod 256; m = n mod 2 ^ 23; neg = (2 ^ 31 \<le> n)
      in if e = 255 then (if m \<noteq> 0 then NaN else if neg then NInf else PInf)
         else let q = (if e = 0 then of_nat m / 2 ^ 149
                       else if e < 150 then of_nat (2 ^ 23 + m) / 2 ^ (150 - e)
                       else of_nat (2 ^ 23 + m) * 2 ^ (e - 150)) :: rat
              in Fin (if neg then - q else q))"

text \<open>
  The cast of a value to binary32, rounding to nearest, ties to even; too large a value
  becomes infinity.
\<close>

definition f32_round :: "pyfloat \<Rightarrow> 32 word" where
  "f32_round v =
     (case v of
        NaN \<Rightarrow> 0x7FC00000
      | PInf \<Rightarrow> 0x7F800000
      | NInf \<Rightarrow> 0xFF800000
      | Fin q \<Rightarrow>
          if q = 0 then 0
          else let a = \<bar>q\<bar>; e = max (floor_log2 a) (- 126);
                   m = round_half_even (a / pow2 (e - 23));
                   bits = (e + 126) * 2 ^ 23 + m;
                   mag = (if bits \<ge> 0x7F800000 then 0x7F800000 else bits)
               in word_of_int (mag + (if q < 0 then 2 ^ 31 else 0)))"

text \<open>
  \<open>val.astype('<' + dtype)\<close> in \<open>data_array_to_dep\<close>, where \<open>dtype\<close> was chosen from the
  array's own dtype name: integers stay 16-bit integers, floats become 32-bit floats.
\<close>

fun astype_dep :: "cells \<Rightarrow> cells" where
  "astype_dep (I16 ws) = I16 ws"
| "astype_dep (F32 bs) = F32 bs"
| "astype_dep (F64 vs) = F32 (map f32_round vs)"

section \<open>The body file (to_tas and numpy.fromfile)\<close>

text \<open>
  A byte is a number below 256. \<open>struct.pack\<close> without a byte-order character and a
  dtype without one both use the byte order of the machine, a parameter of the model.
\<close>

datatype endian = LittleEndian | BigEndian

text \<open>The \<open>k\<close> low bytes of a number, lowest first.\<close>

definition le_bytes :: "nat \<Rightarrow> nat \<Rightarrow> nat list" where
  "le_bytes k n = map (\<lambda>i. n div 256 ^ i mod 256) [0..<k]"

definition in_order :: "endian \<Rightarrow> nat list \<Rightarrow> nat list" where
  "in_order order bs = (case order of LittleEndian \<Rightarrow> bs | BigEndian \<Rightarrow> rev bs)"

text \<open>The number whose bytes, lowest first, are given.\<close>

fun le_value :: "nat list \<Rightarrow> nat" where
  "le_value [] = 0"
| "le_value (b # bs) = b + 256 * le_value bs"

text \<open>
  \<open>struct.pack(abbrev * c, *row)\<close>: \<open>h\<close> wants integers, \<open>f\<close> takes any number and
  refuses a finite one beyond the binary32 range. A binary32 sample is written as its
  bit pattern.
\<close>

definition pack_f :: "endian \<Rightarrow> pyfloat \<Rightarrow> error + nat list" where
  "pack_f order v =
     (if v \<noteq> PInf \<and> v \<noteq> NInf \<and> f32_value (f32_round v) \<in> {PInf, NInf} then Inl OverflowError
      else Inr (in_order order (le_bytes 4 (unat (f32_round v)))))"

fun collect :: "(error + 'a list) list \<Rightarrow> error + 'a list" where
  "collect [] = Inr []"
| "collect (r # rs) =
     (case r of
        Inl e \<Rightarrow> Inl e
      | Inr bs \<Rightarrow> (case collect rs of Inl e \<Rightarrow> Inl e | Inr rest \<Rightarrow> Inr (bs @ rest)))"

definition pack_row :: "endian \<Rightarrow> string \<Rightarrow> cells \<Rightarrow> error + nat list" where
  "pack_row order abbrev row =
     (case row of
        I16 ws \<Rightarrow>
          if abbrev = ''h'' then Inr (concat (map (\<lambda>w. in_order order (le_bytes 2 (unat w))) ws))
          else collect (map (\<lambda>w. pack_f order (Fin (of_int (sint w)))) ws)
      | F32 bs \<Rightarrow>
          if abbrev = ''h'' then (if bs = [] then Inr [] else Inl StructError)
          else Inr (concat (map (\<lambda>b. in_order order (le_bytes 4 (unat b))) bs))
      | F64 vs \<Rightarrow>
          if abbrev = ''h'' then (if vs = [] then Inr [] else Inl StructError)
          else collect (map (pack_f order) vs))"

text \<open>\<open>vals[i, :]\<close> for a two-dimensional array with \<open>c\<close> columns.\<close>

fun row_of :: "nat \<Rightarrow> nat \<Rightarrow> cells \<Rightarrow> cells" where
  "row_of c i (I16 ws) = I16 (take c (drop (i * c) ws))"
| "row_of c i (F32 bs) = F32 (take c (drop (i * c) bs))"
| "row_of c i (F64 vs) = F64 (take c (drop (i * c) vs))"

text \<open>\<open>to_tas\<close>: the bytes written to the body file, row after row.\<close>

definition to_tas :: "endian \<Rightarrow> ndarray \<Rightarrow> string \<Rightarrow> error + nat list" where
  "to_tas order vals typ_str =
     (case nd_shape vals of
        [r, c] \<Rightarrow>
          (let abbrev = (if typ_str = ''integer'' then ''h'' else ''f'')
           in collect (map (\<lambda>i. pack_row order abbrev (row_of c i (nd_data vals))) [0..<r]))
      | _ \<Rightarrow> Inl Not2D)"

text \<open>The complete groups of \<open>n\<close> items; a shorter rest is ignored, as \<open>numpy.fromfile\<close> does.\<close>

fun chunks :: "nat \<Rightarrow> 'a list \<Rightarrow> 'a list list" where
  "chunks n xs = (if n = 0 \<or> length xs < n then [] else take n xs # chunks n (drop n xs))"

text \<open>\<open>numpy.fromfile(tas, dtype)\<close> for the two dtypes of \<open>DTYPES\<close>, in a given byte order.\<close>

definition fromfile :: "endian \<Rightarrow> string \<Rightarrow> nat list \<Rightarrow> cells" where
  "fromfile order dtype bytes =
     (if dtype = ''f4''
      then F32 (map (\<lambda>bs. word_of_nat (le_value (in_order order bs))) (chunks 4 bytes))
      else I16 (map (\<lambda>bs. word_of_nat (le_value (in_order order bs))) (chunks 2 bytes)))"

text \<open>
  \<open>val.resize(rows, cols)\<close> in place: the samples are cut or padded with zeros; a negative
  dimension is a \<open>ValueError\<close>.
\<close>

fun resize_cells :: "nat \<Rightarrow> cells \<Rightarrow> cells" where
  "resize_cells n (I16 ws) = I16 (take n (ws @ replicate n 0))"
| "resize_cells n (F32 bs) = F32 (take n (bs @ replicate n 0))"
| "resize_cells n (F64 vs) = F64 (take n (vs @ replicate n (Fin 0)))"

definition resize :: "int \<Rightarrow> int \<Rightarrow> cells \<Rightarrow> error + ndarray" where
  "resize rows cols cs =
     (if rows < 0 \<or> cols < 0 then Inl NegativeDimension
      else Inr \<lparr>nd_shape = [nat rows, nat cols], nd_data = resize_cells (nat rows * nat cols) cs\<rparr>)"

section \<open>Files, the environment and loaded arrays\<close>

text \<open>
  A file holds bytes. A file that was written as text is kept as its text (ASCII, one
  byte per character), a file that was written in binary mode as its bytes; each can be
  read the other way.
\<close>

datatype contents = Text string | Binary "nat list"

type_synonym fs = "(string \<times> contents) list"

definition read_text :: "fs \<Rightarrow> string \<Rightarrow> string" where
  "read_text files p =
     (case map_of files p of
        Some (Text s) \<Rightarrow> s
      | Some (Binary bs) \<Rightarrow> map char_of bs
      | None \<Rightarrow> [])"

definition read_bytes :: "fs \<Rightarrow> string \<Rightarrow> nat list" where
  "read_bytes files p =
     (case map_of files p of
        Some (Text s) \<Rightarrow> map of_char s
      | Some (Binary bs) \<Rightarrow> bs
      | None \<Rightarrow> [])"

text \<open>
  What the module takes from its surroundings: the byte order of the machine, the value of
  \<open>WHITEBOX_TEMP_DIR\<close>, \<open>os.path.abspath\<close> (it depends on the working directory) and
  the printer of floats.
\<close>

record env =
  env_host :: endian
  env_temp_dir :: string
  env_abspath :: "string \<Rightarrow> string"
  env_float_str :: "pyfloat \<Rightarrow> string"

text \<open>
  An \<open>xarray.DataArray\<close>: the values and the attributes; the module never reads the
  coordinates of an array. The list that \<open>from_dep\<close> stores under the attribute
  \<open>filename\<close> is a field of its own.
\<close>

record data_array =
  da_values :: ndarray
  da_attrs :: attrs
  da_filename :: "string list"

text \<open>Sequencing of steps that can raise.\<close>

definition bind_err :: "error + 'a \<Rightarrow> ('a \<Rightarrow> error + 'b) \<Rightarrow> error + 'b" where
  "bind_err r f = (case r of Inl e \<Rightarrow> Inl e | Inr x \<Rightarrow> f x)"

text \<open>\<open>d[key]\<close>.\<close>

definition lookup :: "attrs \<Rightarrow> string \<Rightarrow> error + pyval" where
  "lookup d key = (case map_of d key of None \<Rightarrow> Inl (KeyError key) | Some v \<Rightarrow> Inr v)"

section \<open>Decoding (from_dep)\<close>

definition ENDIAN :: "(string \<times> endian) list" where
  "ENDIAN = [(''LITTLE_ENDIAN'', LittleEndian), (''BIG_ENDIAN'', BigEndian)]"

text \<open>\<open>_get_dtype(attrs.get('Data Type'))\<close>: without the key, \<open>None\<close> has no \<open>lower\<close>.\<close>

definition header_dtype :: "attrs \<Rightarrow> error + string" where
  "header_dtype d =
     (case map_of d ''Data Type'' of
        Some (VStr s) \<Rightarrow> Inr (snd (get_dtype s))
      | _ \<Rightarrow> Inl AttributeError)"

text \<open>
  Lines 187 to 189: the byte order is looked up under the key \<open>byte_order\<close>; without a
  hit in \<open>ENDIAN\<close> the dtype has no byte-order character and the machine's order is used.
\<close>

definition header_order :: "endian \<Rightarrow> attrs \<Rightarrow> endian" where
  "header_order host d =
     (case map_of d ''byte_order'' of
        Some (VStr b) \<Rightarrow> (case map_of ENDIAN b of Some order \<Rightarrow> order | None \<Rightarrow> host)
      | _ \<Rightarrow> host)"

definition as_int :: "pyval \<Rightarrow> error + int" where
  "as_int v = (case v of VInt i \<Rightarrow> Inr i | _ \<Rightarrow> Inl TypeError)"

text \<open>
  Lines 194 and 195 read the four bounds for the coordinate axes. The axes themselves are
  computed by \<open>numpy.linspace\<close> in floating-point arithmetic and are not part of the
  model; the lookups, which can raise, are.
\<close>

definition axis_bounds :: "attrs \<Rightarrow> error + unit" where
  "axis_bounds d =
     bind_err (lookup d ''South'') (\<lambda>s. bind_err (lookup d ''North'') (\<lambda>n.
     bind_err (lookup d ''East'') (\<lambda>e. bind_err (lookup d ''West'') (\<lambda>w. Inr ()))))"

definition from_dep :: "endian \<Rightarrow> fs \<Rightarrow> string \<Rightarrow> string option \<Rightarrow> error + data_array" where
  "from_dep host files dep tas =
     (if dep = [] \<or> map_of files dep = None then Inl DepMissing
      else
        (let tas1 = (if (tas = None \<or> tas = Some []) \<and> endswith dep ''.dep''
                     then Some (take (length dep - 4) dep @ ''.tas'') else tas)
         in case tas1 of
              None \<Rightarrow> Inl TasMissing
            | Some t \<Rightarrow>
                if t = [] \<or> map_of files t = None then Inl TasMissing
                else
                  bind_err (from_dep_text (read_text files dep)) (\<lambda>d.
                  bind_err (header_dtype d) (\<lambda>dtype.
                  let val = fromfile (header_order host d) dtype (read_bytes files t)
                  in bind_err (lookup d ''Rows'') (\<lambda>r. bind_err (as_int r) (\<lambda>rows.
                     bind_err (lookup d ''Cols'') (\<lambda>c. bind_err (as_int c) (\<lambda>cols.
                     bind_err (resize rows cols val) (\<lambda>arr.
                     bind_err (axis_bounds d) (\<lambda>u.
                     Inr \<lparr>da_values = arr, da_attrs = d, da_filename = [dep, t]\<rparr>))))))))))"

section \<open>Encoding (data_array_to_dep)\<close>

text \<open>The lines of \<open>DEP_TEMPLATE\<close> before the last: the text up to the field, and the field.\<close>

definition DEP_TEMPLATE :: "(string \<times> string) list" where
  "DEP_TEMPLATE =
     [(''Min:  '', ''min''), (''Max:    '', ''max''), (''North:  '', ''north''),
      (''South:  '', ''south''), (''East:   '', ''east''), (''West:   '', ''west''),
      (''Cols:   '', ''cols''), (''Rows:   '', ''rows''), (''Stacks: '', ''stacks''),
      (''Data Type:  '', ''dtype''), (''Z Units:    '', ''z_units''),
      (''Xy Units:   '', ''xy_units''), (''Projection: '', ''projection''),
      (''Data Scale: '', ''data_scale''), (''Display Min:    '', ''display_min''),
      (''Display Max:    '', ''display_max''), (''Preferred Palette:  '', ''preferred_palette''),
      (''Palette Nonlinearity: '', ''palette_nonlinearity''), (''Nodata: '', ''nodata''),
      (''Byte Order: '', ''byte_order'')]"

text \<open>
  \<open>DEP_TEMPLATE.format(**at)\<close>: every line but the last ends with a line feed, the last
  line is the field \<open>metadata_entry\<close>; a field without a key is a \<open>KeyError\<close>.
\<close>

fun format_fields :: "(pyfloat \<Rightarrow> string) \<Rightarrow> attrs \<Rightarrow> (string \<times> string) list \<Rightarrow> error + string" where
  "format_fields float_str d [] =
     bind_err (lookup d ''metadata_entry'') (\<lambda>v. Inr (format_value float_str v))"
| "format_fields float_str d ((label, key) # rest) =
     bind_err (lookup d key) (\<lambda>v.
     bind_err (format_fields float_str d rest) (\<lambda>text.
     Inr (label @ format_value float_str v @ [CHR 0x0A] @ text)))"

text \<open>Lines 214 to 217: one line per line of the metadata entry.\<close>

definition metadata_lines :: "attrs \<Rightarrow> error + string" where
  "metadata_lines d =
     (case map_of d ''metadata_entry'' of
        None \<Rightarrow> Inr []
      | Some (VStr s) \<Rightarrow> Inr (concat (map (\<lambda>m. [CHR 0x0A] @ ''Metadata Entry: '' @ m) (splitlines s)))
      | Some v \<Rightarrow> Inl AttributeError)"

text \<open>
  \<open>attrs.get('stacks') > 1\<close> in Python 3: a number is compared, anything else (also the
  \<open>None\<close> of a missing key) is a \<open>TypeError\<close>.
\<close>

definition gt_one :: "pyval option \<Rightarrow> error + bool" where
  "gt_one v =
     (case v of
        Some (VInt i) \<Rightarrow> Inr (1 < i)
      | Some (VFloat (Fin q)) \<Rightarrow> Inr (1 < q)
      | Some (VFloat PInf) \<Rightarrow> Inr True
      | Some (VFloat f) \<Rightarrow> Inr False
      | _ \<Rightarrow> Inl TypeError)"

text \<open>\<open>os.path.join(a, b)\<close> on POSIX.\<close>

definition path_join :: "string \<Rightarrow> string \<Rightarrow> string" where
  "path_join a b =
     (if b \<noteq> [] \<and> hd b = CHR ''/'' then b
      else if a = [] \<or> last a = CHR ''/'' then a @ b
      else a @ ''/'' @ b)"

text \<open>\<open>str(tag)\<close> for a tag that is a string or \<open>None\<close>.\<close>

definition str_tag :: "string option \<Rightarrow> string" where
  "str_tag tag = (case tag of None \<Rightarrow> ''None'' | Some t \<Rightarrow> t)"

text \<open>
  Lines 202 to 208 and 214 to 218 of \<open>data_array_to_dep\<close>: the text of the header, or
  what is raised before it is written.
\<close>

definition dep_header :: "(pyfloat \<Rightarrow> string) \<Rightarrow> data_array \<Rightarrow> error + string" where
  "dep_header float_str arr =
     (let typ_str = fst (get_dtype (dtype_name (nd_data (da_values arr))))
      in bind_err (case_insensitive_attrs (da_attrs arr) typ_str) (\<lambda>attrs0.
         let at0 = AList.update ''byte_order'' (VStr ''LITTLE_ENDIAN'') attrs0
         in bind_err (if length (nd_shape (da_values arr)) \<noteq> 2 then Inr True
                      else gt_one (map_of at0 ''stacks'')) (\<lambda>not_2d.
            if not_2d then Inl Not2D
            else bind_err (metadata_lines at0) (\<lambda>md.
                 format_fields float_str
                   (AList.update ''metadata_entry'' (VStr md) at0) DEP_TEMPLATE))))"

text \<open>
  \<open>data_array_to_dep\<close>: the two paths and the file system with the two files written.
  The header is complete before the body is packed.
\<close>

definition data_array_to_dep ::
  "env \<Rightarrow> fs \<Rightarrow> data_array \<Rightarrow> string option \<Rightarrow> string option \<Rightarrow> error + (string \<times> string) \<times> fs" where
  "data_array_to_dep ev files arr fname tag =
     (let val0 = nd_data (da_values arr);
          typ_str = fst (get_dtype (dtype_name val0));
          val = (da_values arr)\<lparr>nd_data := astype_dep val0\<rparr>;
          base = (if fname = None \<or> fname = Some []
                  then path_join (env_temp_dir ev) (str_tag tag) else the fname);
          dep = base @ ''.dep''; tas = base @ ''.tas''
      in bind_err (dep_header (env_float_str ev) arr) (\<lambda>text.
         bind_err (to_tas (env_host ev) val typ_str) (\<lambda>bytes.
         Inr ((dep, tas), AList.update tas (Binary bytes) (AList.update dep (Text text) files)))))"

section \<open>No-data masking (_assign_nodata and assign_nodata)\<close>

text \<open>\<open>==\<close> on floats: NaN equals nothing.\<close>

definition fl_eq :: "pyfloat \<Rightarrow> pyfloat \<Rightarrow> bool" where
  "fl_eq a b \<longleftrightarrow> a \<noteq> NaN \<and> a = b"

text \<open>\<open>arr.values.astype(np.float64)\<close>, and the values of the samples of an array.\<close>

fun samples :: "cells \<Rightarrow> pyfloat list" where
  "samples (I16 ws) = map (\<lambda>w. Fin (of_int (sint w))) ws"
| "samples (F32 bs) = map f32_value bs"
| "samples (F64 vs) = vs"

definition astype_float64 :: "cells \<Rightarrow> cells" where
  "astype_float64 cs = F64 (samples cs)"

text \<open>
  The number that \<open>arr.values == no_data\<close> compares each sample with. numpy turns a
  Python number into the array's own type: an integer becomes the nearest binary64 number,
  and against 32-bit samples a number within the binary32 range is rounded to binary32
  (one beyond that range is compared as it is). Against a string or \<open>None\<close> no sample
  is equal.
\<close>

definition nodata_number :: "pyval \<Rightarrow> pyfloat option" where
  "nodata_number no_data =
     (case no_data of
        VInt i \<Rightarrow> Some (f64_round (of_int i))
      | VFloat f \<Rightarrow> Some f
      | _ \<Rightarrow> None)"

definition as_float32 :: "pyfloat \<Rightarrow> pyfloat" where
  "as_float32 f =
     (let g = f32_value (f32_round f)
      in if f \<noteq> PInf \<and> f \<noteq> NInf \<and> (g = PInf \<or> g = NInf) then f else g)"

fun compared_with :: "cells \<Rightarrow> pyval \<Rightarrow> pyfloat option" where
  "compared_with (F32 bs) no_data = map_option as_float32 (nodata_number no_data)"
| "compared_with (F64 vs) no_data = nodata_number no_data"
| "compared_with (I16 ws) no_data = nodata_number no_data"

definition equals_nodata :: "pyfloat \<Rightarrow> pyfloat option \<Rightarrow> bool" where
  "equals_nodata v s = (case s of None \<Rightarrow> False | Some f \<Rightarrow> fl_eq v f)"

text \<open>
  \<open>arr.values[arr.values == no_data] = np.NaN\<close>. In a 32-bit array NaN is the pattern
  \<open>0x7FC00000\<close>. Integer samples do not get here: they were widened on the line before.
\<close>

fun mask_nodata :: "pyval \<Rightarrow> cells \<Rightarrow> cells" where
  "mask_nodata no_data (F64 vs) =
     F64 (map (\<lambda>v. if equals_nodata v (compared_with (F64 vs) no_data) then NaN else v) vs)"
| "mask_nodata no_data (F32 bs) =
     F32 (map (\<lambda>b. if equals_nodata (f32_value b) (compared_with (F32 bs) no_data)
                     then 0x7FC00000 else b) bs)"
| "mask_nodata no_data (I16 ws) = I16 ws"

definition assign_nodata_cells :: "cells \<Rightarrow> pyval \<Rightarrow> cells" where
  "assign_nodata_cells cs no_data =
     mask_nodata no_data (if contains ''int'' (dtype_name cs) then astype_float64 cs else cs)"

text \<open>\<open>_assign_nodata\<close>.\<close>

definition assign_nodata_priv :: "data_array \<Rightarrow> pyval \<Rightarrow> data_array" where
  "assign_nodata_priv arr no_data =
     arr\<lparr>da_values := (da_values arr)\<lparr>nd_data := assign_nodata_cells (nd_data (da_values arr)) no_data\<rparr>\<rparr>"

text \<open>
  An \<open>xarray.Dataset\<close> is its variables by name. Building one aligns the coordinates of
  its variables; that is xarray's and not modelled.
\<close>

datatype xr = Dataset "(string \<times> data_array) list" | DataArray data_array

text \<open>\<open>assign_nodata(dset_or_arr, **dep)\<close>.\<close>

definition assign_nodata :: "xr \<Rightarrow> attrs \<Rightarrow> xr" where
  "assign_nodata dset_or_arr dep =
     (case map_of dep ''Nodata'' of
        None \<Rightarrow> dset_or_arr
      | Some VNone \<Rightarrow> dset_or_arr
      | Some no_data \<Rightarrow>
          (case dset_or_arr of
             Dataset vars \<Rightarrow> Dataset (map (\<lambda>(k, v). (k, assign_nodata_priv v no_data)) vars)
           | DataArray arr \<Rightarrow> DataArray (assign_nodata_priv arr no_data)))"

section \<open>The orchestrator (xarray_whitebox_io)\<close>

definition INPUT_ARGS :: "string list" where
  "INPUT_ARGS = [''input'', ''inputs'', ''i'', ''pour_pts'', ''d8_pntr'']"

definition OUTPUT_ARGS :: "string list" where
  "OUTPUT_ARGS = [''output'', ''outputs'', ''o'']"

text \<open>A keyword argument: a string, an array, a dataset, or anything else.\<close>

datatype arg = AStr string | AArray data_array | ADataset "(string \<times> data_array) list" | AOther pyval

text \<open>\<open>s.split(', ')\<close>.\<close>

fun split_comma :: "string \<Rightarrow> string \<Rightarrow> string list" where
  "split_comma cur [] = [cur]"
| "split_comma cur [c] = [cur @ [c]]"
| "split_comma cur (c # d # cs) =
     (if c = CHR '','' \<and> d = CHR '' '' then cur # split_comma [] cs
      else split_comma (cur @ [c]) (d # cs))"

text \<open>\<open>s.replace('.dep', '-output.dep')\<close>.\<close>

fun replace_dep :: "string \<Rightarrow> string" where
  "replace_dep [] = []"
| "replace_dep (c # cs) =
     (if take 4 (c # cs) = ''.dep'' then ''-output.dep'' @ replace_dep (drop 3 cs)
      else c # replace_dep cs)"

definition fix_path :: "env \<Rightarrow> string \<Rightarrow> string" where
  "fix_path ev path =
     (let paths = map (\<lambda>p. env_abspath ev (path_join ''.'' p)) (split_comma [] path)
      in if length paths = 1 then hd paths else join '', '' paths)"

text \<open>
  The variables of \<open>xarray_whitebox_io\<close> that its loop changes, and the file system. The
  option \<open>delete_tempdir\<close> is popped from the arguments on line 225 and not read again.
\<close>

record staging =
  st_kwargs :: "(string \<times> arg) list"
  st_load_afterwards :: "(string \<times> string) list"
  st_fnames :: "((string \<times> string) \<times> string \<times> string) list"
  st_dumped :: "string option"
  st_files :: fs

text \<open>Lines 239 to 243 for one variable of a dataset.\<close>

definition stage_member :: "env \<Rightarrow> string \<Rightarrow> staging \<Rightarrow> string \<times> data_array \<Rightarrow> error + staging" where
  "stage_member ev k st member =
     (case member of (k2, data_arr) \<Rightarrow>
        bind_err (data_array_to_dep ev (st_files st) data_arr None (Some k2)) (\<lambda>r.
        case r of ((dep, tas), files) \<Rightarrow>
          Inr (st\<lparr>st_fnames := AList.update (k, k2) (dep, tas) (st_fnames st), st_files := files\<rparr>)))"

fun stage_members :: "env \<Rightarrow> string \<Rightarrow> staging \<Rightarrow> (string \<times> data_array) list \<Rightarrow> error + staging" where
  "stage_members ev k st [] = Inr st"
| "stage_members ev k st (member # rest) =
     bind_err (stage_member ev k st member) (\<lambda>st1. stage_members ev k st1 rest)"

text \<open>Lines 230 to 254: the body of the loop for one item of the arguments.\<close>

definition stage_arg :: "env \<Rightarrow> staging \<Rightarrow> string \<times> arg \<Rightarrow> error + staging" where
  "stage_arg ev st item =
     (case item of (k, v) \<Rightarrow>
        if k \<in> set INPUT_ARGS then
          (case v of
             AStr s \<Rightarrow> Inr (st\<lparr>st_kwargs := AList.update k (AStr (fix_path ev s)) (st_kwargs st)\<rparr>)
           | ADataset vars \<Rightarrow>
               if k = ''input'' then Inl DatasetNeedsInputs
               else bind_err (stage_members ev k st vars) (\<lambda>st1.
                    Inr (st1\<lparr>st_kwargs :=
                               AList.update k
                                 (AStr (join '', ''
                                    (map (\<lambda>e. fst (snd e))
                                       (filter (\<lambda>e. fst (fst e) = k) (st_fnames st1)))))
                                 (st_kwargs st1),
                             st_dumped := Some k\<rparr>))
           | AArray arr \<Rightarrow>
               bind_err (data_array_to_dep ev (st_files st) arr None (Some k)) (\<lambda>r.
               case r of ((dep, tas), files) \<Rightarrow>
                 Inr (st\<lparr>st_kwargs := AList.update k (AStr dep) (st_kwargs st),
                         st_dumped := Some k, st_files := files\<rparr>))
           | AOther x \<Rightarrow> Inr st)
        else if k \<in> set OUTPUT_ARGS then
          (case v of
             AStr s \<Rightarrow>
               Inr (st\<lparr>st_load_afterwards := AList.update k (fix_path ev s) (st_load_afterwards st)\<rparr>)
           | _ \<Rightarrow> Inl AttributeError)
        else Inr st)"

fun stage_args :: "env \<Rightarrow> staging \<Rightarrow> (string \<times> arg) list \<Rightarrow> error + staging" where
  "stage_args ev st [] = Inr st"
| "stage_args ev st (item # rest) = bind_err (stage_arg ev st item) (\<lambda>st1. stage_args ev st1 rest)"

text \<open>
  \<open>xarray_whitebox_io\<close> up to its \<open>return\<close>: the staging that the returned function
  closes over. Lines 255 to 257 register an output named after the last staged input,
  under the key the loop ended on.
\<close>

definition xarray_whitebox_io :: "env \<Rightarrow> fs \<Rightarrow> (string \<times> arg) list \<Rightarrow> error + staging" where
  "xarray_whitebox_io ev files kwargs0 =
     (let kwargs = AList.delete ''delete_tempdir'' kwargs0;
          st0 = \<lparr>st_kwargs = kwargs, st_load_afterwards = [], st_fnames = [],
                 st_dumped = None, st_files = files\<rparr>
      in bind_err (stage_args ev st0 kwargs) (\<lambda>st.
         case st_dumped st of
           None \<Rightarrow> Inr st
         | Some dumped \<Rightarrow>
             if st_load_afterwards st \<noteq> [] then Inr st
             else (case map_of (st_kwargs st) dumped of
                     Some (AStr p) \<Rightarrow>
                       Inr (st\<lparr>st_load_afterwards := [(fst (last kwargs), replace_dep p)],
                               st_kwargs := AList.update ''output'' (AStr (replace_dep p))
                                              (st_kwargs st)\<rparr>)
                   | _ \<Rightarrow> Inl AttributeError)))"

text \<open>
  What \<open>delayed_load_later\<close> returns: the status code, one array, or a dataset; the
  arguments and the status code that line 269 stores in the attributes go with the arrays.
\<close>

datatype outcome =
    ReturnCode int
  | LoadedArray data_array "(string \<times> arg) list" int
  | LoadedDataset "(string \<times> data_array) list" "(string \<times> arg) list" int

fun load_paths ::
  "endian \<Rightarrow> fs \<Rightarrow> string \<Rightarrow> (string \<times> data_array) list \<Rightarrow> string list
   \<Rightarrow> error + (string \<times> data_array) list" where
  "load_paths host files k data_arrs [] = Inr data_arrs"
| "load_paths host files k data_arrs (path # rest) =
     bind_err (from_dep host files path None) (\<lambda>arr.
     load_paths host files k (AList.update k arr data_arrs) rest)"

fun load_outputs ::
  "endian \<Rightarrow> fs \<Rightarrow> (string \<times> data_array) list \<Rightarrow> (string \<times> string) list
   \<Rightarrow> error + (string \<times> data_array) list" where
  "load_outputs host files data_arrs [] = Inr data_arrs"
| "load_outputs host files data_arrs ((k, paths) # rest) =
     bind_err (load_paths host files k data_arrs (split_comma [] paths)) (\<lambda>data_arrs1.
     load_outputs host files data_arrs1 rest)"

text \<open>\<open>os.remove\<close> on each path in turn.\<close>

fun remove_files :: "fs \<Rightarrow> string list \<Rightarrow> error + fs" where
  "remove_files files [] = Inr files"
| "remove_files files (p # ps) =
     (if map_of files p = None then Inl (FileNotFound p)
      else remove_files (AList.delete p files) ps)"

text \<open>
  \<open>delayed_load_later(ret_val)\<close>, run on the file system that the external tool left.
  Line 270 calls \<open>assign_nodata\<close> with the dataset only, so its \<open>dep\<close> is empty.
\<close>

definition delayed_load_later :: "env \<Rightarrow> staging \<Rightarrow> fs \<Rightarrow> int \<Rightarrow> error + outcome \<times> fs" where
  "delayed_load_later ev st files ret_val =
     (if st_load_afterwards st = [] then Inr (ReturnCode ret_val, files)
      else
        bind_err (load_outputs (env_host ev) files [] (st_load_afterwards st)) (\<lambda>data_arrs.
        case assign_nodata (Dataset data_arrs) [] of
          DataArray arr \<Rightarrow> Inl TypeError
        | Dataset vars \<Rightarrow>
            bind_err (remove_files files
                        (concat (map (\<lambda>e. [fst (snd e), snd (snd e)]) (st_fnames st)))) (\<lambda>files1.
            if length (st_load_afterwards st) = 1
            then (case map_of vars (fst (last (st_load_afterwards st))) of
                    Some arr \<Rightarrow> Inr (LoadedArray arr (st_kwargs st) ret_val, files1)
                  | None \<Rightarrow> Inl (KeyError (fst (last (st_load_afterwards st)))))
            else Inr (LoadedDataset vars (st_kwargs st) ret_val, files1))))"

section \<open>Example inputs\<close>

text \<open>The attributes of the encode scenario of the specification.\<close>

definition scenario_attrs :: attrs where
  "scenario_attrs =
     [(''min'', VInt 0), (''max'', VInt 10), (''north'', VInt 5), (''south'', VInt 0),
      (''east'', VInt 0), (''west'', VInt 5), (''cols'', VInt 5), (''rows'', VInt 5),
      (''data_type'', VStr ''float''), (''z_units'', VStr ''M''), (''xy_units'', VStr ''M''),
      (''data_scale'', VStr ''continuous'')]"

text \<open>The same attributes with the data scale \<open>Boolean\<close>.\<close>

definition boolean_attrs :: attrs where
  "boolean_attrs =
     [(''min'', VInt 0), (''max'', VInt 10), (''north'', VInt 5), (''south'', VInt 0),
      (''east'', VInt 0), (''west'', VInt 5), (''cols'', VInt 5), (''rows'', VInt 5),
      (''z_units'', VStr ''M''), (''xy_units'', VStr ''M''), (''Data Scale'', VStr ''Boolean'')]"

text \<open>
  A little-endian machine with a given printer of floats. The paths of the examples are
  absolute and normalised, so \<open>abspath\<close> leaves them as they are.
\<close>

definition example_env :: "(pyfloat \<Rightarrow> string) \<Rightarrow> env" where
  "example_env float_str = \<lparr>env_host = LittleEndian, env_temp_dir = ''/tmp/wb'',
                              env_abspath = (\<lambda>p. p), env_float_str = float_str\<rparr>"

text \<open>
  The 5 by 5 grid of the 32-bit floats 0.0 to 24.0, as their bit patterns, and arrays that
  carry it.
\<close>

definition scenario_grid :: ndarray where
  "scenario_grid =
     \<lparr>nd_shape = [5, 5],
      nd_data = F32 [0x00000000, 0x3F800000, 0x40000000, 0x40400000, 0x40800000,
                     0x40A00000, 0x40C00000, 0x40E00000, 0x41000000, 0x41100000,
                     0x41200000, 0x41300000, 0x41400000, 0x41500000, 0x41600000,
                     0x41700000, 0x41800000, 0x41880000, 0x41900000, 0x41980000,
                     0x41A00000, 0x41A80000, 0x41B00000, 0x41B80000, 0x41C00000]\<rparr>"

definition scenario_array :: data_array where
  "scenario_array = \<lparr>da_values = scenario_grid, da_attrs = scenario_attrs, da_filename = []\<rparr>"


definition displayed_array :: data_array where
  "displayed_array =
     scenario_array\<lparr>da_attrs := scenario_attrs @
       [(''stacks'', VInt 1), (''display_min'', VInt 0), (''display_max'', VInt 24)]\<rparr>"



definition displayed_header :: string where
  "displayed_header = ''Min:  0\<newline>Max:    10\<newline>North:  5\<newline>South:  0\<newline>East:   0\<newline>West:   5\<newline>Cols:   5\<newline>Rows:   5\<newline>Stacks: 1\<newline>Data Type:  float\<newline>Z Units:    M\<newline>Xy Units:   M\<newline>Projection: \<newline>Data Scale: continuous\<newline>Display Min:    0\<newline>Display Max:    24\<newline>Preferred Palette:  \<newline>Palette Nonlinearity: high_relief.pal\<newline>Nodata: \<newline>Byte Order: LITTLE_ENDIAN\<newline>''"

definition scenario_body :: "nat list" where
  "scenario_body =
     [0, 0, 0, 0, 0, 0, 128, 63, 0, 0, 0, 64, 0, 0, 64, 64, 0, 0, 128, 64,
      0, 0, 160, 64, 0, 0, 192, 64, 0, 0, 224, 64, 0, 0, 0, 65, 0, 0, 16,
      65, 0, 0, 32, 65, 0, 0, 48, 65, 0, 0, 64, 65, 0, 0, 80, 65, 0, 0, 96,
      65, 0, 0, 112, 65, 0, 0, 128, 65, 0, 0, 136, 65, 0, 0, 144, 65, 0, 0,
      152, 65, 0, 0, 160, 65, 0, 0, 168, 65, 0, 0, 176, 65, 0, 0, 184, 65,
      0, 0, 192, 65]"

definition displayed_decoded :: attrs where
  "displayed_decoded =
     [(''Min'', VFloat (Fin 0)), (''Max'', VFloat (Fin 10)),
      (''North'', VFloat (Fin 5)), (''South'', VFloat (Fin 0)),
      (''East'', VFloat (Fin 0)), (''West'', VFloat (Fin 5)),
      (''Cols'', VInt 5), (''Rows'', VInt 5), (''Stacks'', VInt 1),
      (''Data Type'', VStr ''float''), (''Z Units'', VStr ''M''),
      (''Xy Units'', VStr ''M''), (''Projection'', VStr []),
      (''Data Scale'', VStr ''CONTINUOUS''),
      (''Display Min'', VFloat (Fin 0)), (''Display Max'', VFloat (Fin 24)),
      (''Preferred Palette'', VStr []),
      (''Palette Nonlinearity'', VStr ''HIGH_RELIEF.PAL''),
      (''Nodata'', VStr []), (''Byte Order'', VStr ''LITTLE_ENDIAN'')]"


definition displayed_files :: fs where
  "displayed_files =
     [(''/tmp/wb/input.dep'', Text displayed_header), (''/tmp/wb/input.tas'', Binary scenario_body)]"

text \<open>A row of three 16-bit integers and a row of the two 32-bit floats 1.0 and 2.0.\<close>

definition integer_array :: data_array where
  "integer_array =
     \<lparr>da_values = \<lparr>nd_shape = [1, 3], nd_data = I16 [1, 2, 3]\<rparr>, da_attrs = [],
      da_filename = []\<rparr>"

definition float_array :: data_array where
  "float_array =
     \<lparr>da_values = \<lparr>nd_shape = [1, 2], nd_data = F32 [0x3F800000, 0x40000000]\<rparr>, da_attrs = [],
      da_filename = []\<rparr>"

section \<open>Terms for stating properties of the header reader\<close>




text \<open>
  Two headers of a grid of one 16-bit integer that differ in their byte order only, and
  bodies that hold the number 1 with the high byte first and with the low byte first.
\<close>

definition big_endian_header :: string where
  "big_endian_header = ''Min: 1\<newline>Max: 1\<newline>North: 1\<newline>South: 0\<newline>East: 0\<newline>West: 1\<newline>Cols: 1\<newline>Rows: 1\<newline>Stacks: 1\<newline>Data Type: integer\<newline>Z Units: m\<newline>Xy Units: m\<newline>Data Scale: continuous\<newline>Byte Order: BIG_ENDIAN\<newline>''"

definition little_endian_header :: string where
  "little_endian_header = ''Min: 1\<newline>Max: 1\<newline>North: 1\<newline>South: 0\<newline>East: 0\<newline>West: 1\<newline>Cols: 1\<newline>Rows: 1\<newline>Stacks: 1\<newline>Data Type: integer\<newline>Z Units: m\<newline>Xy Units: m\<newline>Data Scale: continuous\<newline>Byte Order: LITTLE_ENDIAN\<newline>''"

definition endian_files :: fs where
  "endian_files =
     [(''/d/be.dep'', Text big_endian_header), (''/d/be.tas'', Binary [0, 1]),
      (''/d/le.dep'', Text little_endian_header), (''/d/le.tas'', Binary [1, 0])]"

text \<open>The attributes that \<open>_from_dep\<close> reads from the two headers.\<close>

definition endian_attrs :: "string \<Rightarrow> attrs" where
  "endian_attrs order =
     [(''Min'', VFloat (Fin 1)), (''Max'', VFloat (Fin 1)), (''North'', VFloat (Fin 1)),
      (''South'', VFloat (Fin 0)), (''East'', VFloat (Fin 0)), (''West'', VFloat (Fin 1)),
      (''Cols'', VInt 1), (''Rows'', VInt 1), (''Stacks'', VInt 1),
      (''Data Type'', VStr ''integer''), (''Z Units'', VStr ''M''), (''Xy Units'', VStr ''M''),
      (''Data Scale'', VStr ''CONTINUOUS''), (''Byte Order'', VStr order)]"

text \<open>The samples of a decoded array; \<open>None\<close> when decoding raised.\<close>

definition decoded_cells :: "error + data_array \<Rightarrow> cells option" where
  "decoded_cells r = (case r of Inl e \<Rightarrow> None | Inr arr \<Rightarrow> Some (nd_data (da_values arr)))"

text \<open>A body with the bytes of each sample of \<open>k\<close> bytes reversed.\<close>

definition byteswap :: "nat \<Rightarrow> nat list \<Rightarrow> nat list" where
  "byteswap k bytes = concat (map rev (chunks k bytes))"

section \<open>Properties of the float reader\<close>

text \<open>
  A whole number below \<open>2^53\<close> in size is a binary64 number, so rounding leaves it as it
  is. The last lemma lets evaluation take that short way.
\<close>

lemma bitlen_le: "n < 2 ^ k \<Longrightarrow> bitlen n \<le> k"
proof (induction k arbitrary: n)
  case 0
  then show ?case by (simp add: bitlen.simps)
next
  case (Suc k)
  show ?case
  proof (cases "n = 0")
    case True
    then show ?thesis by (simp add: bitlen.simps)
  next
    case False
    from Suc.prems have "n div 2 < 2 ^ k" by simp
    from Suc.IH [OF this] False show ?thesis by (subst bitlen.simps) simp
  qed
qed

lemma round_half_even_int: "round_half_even (of_int z) = z"
  by (simp add: round_half_even_def)

lemma floor_log2_int_le:
  assumes "0 < n" "n < 2 ^ 53"
  shows "floor_log2 (of_int n) \<le> 52"
proof -
  have "nat n < 2 ^ 53" using assms by (simp add: nat_less_iff)
  then have "bitlen (nat n) \<le> 53" by (rule bitlen_le)
  moreover have "bitlen (nat 1) = 1" by (simp add: bitlen.simps)
  ultimately show ?thesis
    by (simp add: floor_log2_def quotient_of_int Let_def)
qed

lemma f64_round_pos_int:
  assumes "0 < n" "n < 2 ^ 53"
  shows "f64_round (of_int n) = Fin (of_int n)" and "f64_round (- of_int n) = Fin (- of_int n)"
proof -
  define e where "e = max (floor_log2 (of_int n)) (- 1022)"
  have e: "e \<le> 52" using floor_log2_int_le [OF assms] by (simp add: e_def)
  have p: "pow2 (e - 52) = 1 / 2 ^ nat (52 - e)"
    using e by (cases "e = 52") (simp_all add: pow2_def)
  have d: "(of_int n :: rat) / pow2 (e - 52) = of_int (n * 2 ^ nat (52 - e))"
    by (simp add: p)
  have v: "of_int (round_half_even (of_int n / pow2 (e - 52))) * pow2 (e - 52) = (of_int n :: rat)"
    unfolding d round_half_even_int by (simp add: p)
  have "(of_int n :: rat) < 2 ^ 53" using assms(2) by (metis of_int_less_numeral_power_cancel_iff)
  also have "\<dots> \<le> 2 ^ 1024" by (rule power_increasing) simp_all
  finally have small: "\<not> pow2 1024 \<le> (of_int n :: rat)" by (simp add: pow2_def)
  have a: "\<bar>of_int n :: rat\<bar> = of_int n" using assms(1) by simp
  show "f64_round (of_int n) = Fin (of_int n)"
    using assms(1) small v by (simp add: f64_round_def Let_def a e_def [symmetric])
  show "f64_round (- of_int n) = Fin (- of_int n)"
    using assms(1) small v by (simp add: f64_round_def Let_def a e_def [symmetric])
qed

lemma f64_round_code [code]:
  "f64_round q =
     (let (n, d) = quotient_of q
      in if d = 1 \<and> \<bar>n\<bar> < 9007199254740992 then Fin q
         else let a = \<bar>q\<bar>; e = max (floor_log2 a) (- 1022);
                  m = round_half_even (a / pow2 (e - 52));
                  v = of_int m * pow2 (e - 52)
              in if pow2 1024 \<le> v then (if q < 0 then NInf else PInf)
                 else Fin (if q < 0 then - v else v))"
proof (cases "snd (quotient_of q) = 1 \<and> \<bar>fst (quotient_of q)\<bar> < 9007199254740992")
  case False
  have "snd (quotient_of q) = 1 \<Longrightarrow> q \<noteq> 0"
    using False by auto
  then show ?thesis using False
    by (auto simp: f64_round_def Let_def split: prod.splits)
next
  case True
  define n where "n = fst (quotient_of q)"
  have qn: "quotient_of q = (n, 1)" using True by (simp add: n_def prod_eq_iff)
  from quotient_of_div [OF this] have q: "q = of_int n" by simp
  have n: "\<bar>n\<bar> < 2 ^ 53" using True by (simp add: n_def)
  have "f64_round (of_int n) = Fin (of_int n)"
  proof (cases "n = 0")
    case True
    then show ?thesis by (simp add: f64_round_def)
  next
    case False
    show ?thesis
    proof (cases "0 < n")
      case True
      then show ?thesis using f64_round_pos_int(1) [of n] n by simp
    next
      case neg: False
      then have "0 < - n" "- n < 2 ^ 53" using False n by auto
      from f64_round_pos_int(2) [OF this] show ?thesis by simp
    qed
  qed
  then have "f64_round q = Fin q" by (simp add: q)
  then show ?thesis using n by (simp add: qn)
qed

section \<open>Properties of the normaliser\<close>

lemma lower_all_foldl:
  "map_of (foldl (\<lambda>m (k, v). AList.update (lower_key k) v m) m0 raw) k = None
   \<longleftrightarrow> map_of m0 k = None \<and> k \<notin> lower_key ` fst ` set raw"
  by (induction raw arbitrary: m0) (auto simp: update_conv' split: prod.splits)

lemma lower_all_None:
  "map_of (lower_all raw typ) k = None \<longleftrightarrow> k \<noteq> ''dtype'' \<and> k \<notin> lowered_keys raw"
  unfolding lower_all_def lowered_keys_def lower_all_foldl by auto

lemma fill_units_other: "k' \<noteq> k \<Longrightarrow> map_of (fill_units k m) k' = map_of m k'"
  by (simp add: fill_units_def update_conv' split: option.splits)

lemma fill_optional_foldl:
  "map_of (foldl (\<lambda>a k. if map_of a k = None then AList.update k (VStr []) a else a) m ks) k =
     (if map_of m k = None \<and> k \<in> set ks then Some (VStr []) else map_of m k)"
  by (induction ks arbitrary: m) (auto simp: update_conv')

lemma fill_optional_apply:
  "map_of (fill_optional m) k =
     (if map_of m k = None \<and> k \<in> set OPTIONAL_DEP_FIELDS then Some (VStr []) else map_of m k)"
  unfolding fill_optional_def by (rule fill_optional_foldl)

lemma backfill_palette_nonlinearity:
  "map_of (backfill raw typ) ''palette_nonlinearity'' =
     (if ''preferred_palette'' \<notin> lowered_keys raw then Some (VStr ''high_relief.pal'')
      else if ''palette_nonlinearity'' \<notin> lowered_keys raw then Some (VFloat (Fin 1))
      else map_of (lower_all raw typ) ''palette_nonlinearity'')"
  by (simp add: backfill_def fill_palette_def Let_def fill_units_other lower_all_None update_conv')

lemma backfill_data_scale:
  "map_of (backfill raw typ) ''data_scale'' = map_of (lower_all raw typ) ''data_scale''"
  by (simp add: backfill_def fill_palette_def Let_def fill_units_other update_conv')

lemma case_insensitive_attrs_Inr:
  "case_insensitive_attrs raw typ = Inr m \<Longrightarrow> m = fill_optional (backfill raw typ)"
  by (auto simp: case_insensitive_attrs_def Let_def split: if_splits sum.splits)

lemma lower_char_neq_B: "lower_char c \<noteq> CHR ''B''"
  by (simp add: lower_char_def upper_letters_def lower_letters_def latin1_upper_def
      latin1_lower_def)

lemma lower_neq_Boolean: "lower s \<noteq> ''Boolean''"
proof
  assume "lower s = ''Boolean''"
  then have "CHR ''B'' \<in> set (lower s)" by simp
  then obtain c where "lower_char c = CHR ''B''" by (auto simp: lower_def)
  with lower_char_neq_B [of c] show False by simp
qed

text \<open>
  What the data-scale check does with a string value once the required keys are there:
  the value is lower-cased and then looked up in a list that spells \<open>Boolean\<close> with a
  capital, so only \<open>continuous\<close> and \<open>categorical\<close> pass.
\<close>

lemma data_scale_outcome:
  assumes miss: "filter (\<lambda>k. map_of (backfill raw typ) k = None) REQUIRED_DEP_FIELDS = []"
    and ds: "map_of (lower_all raw typ) ''data_scale'' = Some (VStr s)"
  shows "case_insensitive_attrs raw typ =
           (if lower s = ''rgb'' then Inl RgbNotHandled
            else if lower s = ''continuous'' \<or> lower s = ''categorical''
            then Inr (fill_optional (backfill raw typ))
            else Inl BadDataScale)"
proof -
  have m: "map_of (fill_optional (backfill raw typ)) ''data_scale'' = Some (VStr s)"
    by (simp add: fill_optional_apply backfill_data_scale ds)
  have scale: "data_scale_of (fill_optional (backfill raw typ)) = Inr (lower s)"
    by (cases "s = []") (simp_all add: data_scale_of_def m lower_def)
  show ?thesis
    using lower_neq_Boolean [of s]
    by (simp add: case_insensitive_attrs_def Let_def miss scale OK_DATA_SCALES_def)
qed

text \<open>
  C2. The claim: a data scale that is, ignoring case, continuous, categorical or boolean
  is accepted. The code rejects boolean in every spelling: whenever no required key is
  missing and the data scale is a string that lower-cases to \<open>boolean\<close>, normalisation
  fails with the \<open>ValueError\<close> of line 119.
\<close>

theorem data_scale_boolean_rejected:
  assumes "filter (\<lambda>k. map_of (backfill raw typ) k = None) REQUIRED_DEP_FIELDS = []"
    and "map_of (lower_all raw typ) ''data_scale'' = Some (VStr s)"
    and "lower s = ''boolean''"
  shows "case_insensitive_attrs raw typ = Inl BadDataScale"
  using data_scale_outcome [OF assms(1,2)] assms(3) by simp

theorem data_scale_boolean_rejected_witness:
  "filter (\<lambda>k. map_of (backfill boolean_attrs ''integer'') k = None) REQUIRED_DEP_FIELDS = [] \<and>
   map_of (lower_all boolean_attrs ''integer'') ''data_scale'' = Some (VStr ''Boolean'') \<and>
   lower ''Boolean'' = ''boolean'' \<and>
   case_insensitive_attrs boolean_attrs ''integer'' = Inl BadDataScale \<and>
   exc_class_of BadDataScale = ValueError_cls"
proof -
  have h1: "filter (\<lambda>k. map_of (backfill boolean_attrs ''integer'') k = None)
              REQUIRED_DEP_FIELDS = []"
    by code_simp
  have h2: "map_of (lower_all boolean_attrs ''integer'') ''data_scale'' = Some (VStr ''Boolean'')"
    by code_simp
  have h3: "lower ''Boolean'' = ''boolean''"
    by code_simp
  show ?thesis
    using h1 h2 h3 data_scale_boolean_rejected [OF h1 h2 h3] by simp
qed

text \<open>
  What lines 104 to 107 leave under \<open>palette_nonlinearity\<close> when normalisation
  succeeds. Line 104 tests the key \<open>preferred_palette\<close> and line 105 then writes the
  palette file name under \<open>palette_nonlinearity\<close>, so the test of line 106 finds that key
  present and the number 1.0 of line 107 is only reached when a preferred palette was
  supplied.
\<close>

lemma palette_fill:
  assumes "case_insensitive_attrs raw typ = Inr m"
  shows "map_of m ''palette_nonlinearity'' =
           (if ''preferred_palette'' \<notin> lowered_keys raw then Some (VStr ''high_relief.pal'')
            else if ''palette_nonlinearity'' \<notin> lowered_keys raw then Some (VFloat (Fin 1))
            else map_of (lower_all raw typ) ''palette_nonlinearity'')"
  using case_insensitive_attrs_Inr [OF assms]
  by (auto simp: fill_optional_apply backfill_palette_nonlinearity lower_all_None)

text \<open>
  C8. The claim: an input without a \<open>palette_nonlinearity\<close> key gets the number 1.0,
  whether or not it has a preferred palette. The code misses that default: the scenario's
  attributes have neither key, normalisation succeeds, and the value under
  \<open>palette_nonlinearity\<close> is the file name \<open>high_relief.pal\<close>, not 1.0, while
  \<open>preferred_palette\<close> is left empty.
\<close>

theorem palette_default_overwritten:
  "''palette_nonlinearity'' \<notin> lowered_keys scenario_attrs \<and>
   ''preferred_palette'' \<notin> lowered_keys scenario_attrs \<and>
   result_attr (case_insensitive_attrs scenario_attrs ''float'') ''palette_nonlinearity''
     = Some (VStr ''high_relief.pal'') \<and>
   result_attr (case_insensitive_attrs scenario_attrs ''float'') ''palette_nonlinearity''
     \<noteq> Some (VFloat (Fin 1)) \<and>
   result_attr (case_insensitive_attrs scenario_attrs ''float'') ''preferred_palette''
     = Some (VStr [])"
  by code_simp

section \<open>The examples, evaluated\<close>



lemma dtype_int16: "get_dtype ''int16'' = (''integer'', ''i2'')"
  by code_simp

lemma dep_header_scenario: "dep_header p scenario_array = Inl TypeError"
  by code_simp



lemma encode_scenario:
  "data_array_to_dep (example_env p) files scenario_array None (Some ''input'') = Inl TypeError"
  by (simp add: data_array_to_dep_def Let_def example_env_def dep_header_scenario bind_err_def)


section \<open>Encoding needs a stacks attribute\<close>







section \<open>Properties of the no-data masker\<close>

lemma contains_int:
  "contains ''int'' ''int16''" "\<not> contains ''int'' ''float32''" "\<not> contains ''int'' ''float64''"
  by code_simp+

lemma f32_value_nan: "f32_value 0x7FC00000 = NaN"
  by (simp add: f32_value_def Let_def)

lemma equals_nodata_NaN: "\<not> equals_nodata NaN s"
  by (simp add: equals_nodata_def fl_eq_def split: option.splits)

lemma mask_nodata_idem: "mask_nodata v (mask_nodata v cs) = mask_nodata v cs"
  by (cases cs) (simp_all add: equals_nodata_NaN f32_value_nan)

lemma assign_nodata_cells_idem:
  "assign_nodata_cells (assign_nodata_cells cs v) v = assign_nodata_cells cs v"
  by (cases cs)
    (simp_all add: assign_nodata_cells_def astype_float64_def contains_int equals_nodata_NaN
      f32_value_nan)

lemma unselected_samples:
  assumes "filter (\<lambda>x. equals_nodata x (compared_with cs v)) (samples cs) = []"
  shows "samples (assign_nodata_cells cs v) = samples cs"
    and "\<not> contains ''int'' (dtype_name cs) \<Longrightarrow> assign_nodata_cells cs v = cs"
proof -
  from assms have none: "\<forall>x \<in> set (samples cs). \<not> equals_nodata x (compared_with cs v)"
    by (simp add: filter_empty_conv)
  show "samples (assign_nodata_cells cs v) = samples cs"
    using none
    by (cases cs)
      (auto simp: assign_nodata_cells_def astype_float64_def contains_int intro!: map_idI)
  show "assign_nodata_cells cs v = cs" if "\<not> contains ''int'' (dtype_name cs)"
    using none that
    by (cases cs) (auto simp: assign_nodata_cells_def contains_int intro!: map_idI)
qed

lemma widened:
  "contains ''int'' (dtype_name cs) \<Longrightarrow> dtype_name (assign_nodata_cells cs v) = ''float64''"
  by (cases cs) (simp_all add: assign_nodata_cells_def astype_float64_def contains_int)

text \<open>
  C9. Applying \<open>_assign_nodata\<close> twice with the same sentinel gives what applying it
  once gives. When the comparison with the sentinel selects no sample, the values of the
  samples are unchanged, and an array that is not of an integer kind is left exactly as it
  is. An array of an integer kind always comes back as 64-bit floats, also when no sample
  is selected.
\<close>

theorem nodata_idempotent:
  "assign_nodata_priv (assign_nodata_priv arr v) v = assign_nodata_priv arr v \<and>
   (filter (\<lambda>x. equals_nodata x (compared_with (nd_data (da_values arr)) v))
      (samples (nd_data (da_values arr))) = [] \<longrightarrow>
      samples (nd_data (da_values (assign_nodata_priv arr v))) = samples (nd_data (da_values arr))) \<and>
   (filter (\<lambda>x. equals_nodata x (compared_with (nd_data (da_values arr)) v))
      (samples (nd_data (da_values arr))) = [] \<and>
    \<not> contains ''int'' (dtype_name (nd_data (da_values arr))) \<longrightarrow>
      assign_nodata_priv arr v = arr) \<and>
   (contains ''int'' (dtype_name (nd_data (da_values arr))) \<longrightarrow>
      dtype_name (nd_data (da_values (assign_nodata_priv arr v))) = ''float64'')"
  using unselected_samples [of "nd_data (da_values arr)" v] widened [of "nd_data (da_values arr)" v]
  by (simp add: assign_nodata_priv_def assign_nodata_cells_idem)

lemma float_array_unselected:
  "filter (\<lambda>x. equals_nodata x (compared_with (nd_data (da_values float_array)) (VInt 0)))
     (samples (nd_data (da_values float_array))) = []"
  by (simp add: float_array_def nodata_number_def f64_round_def as_float32_def f32_round_def
      f32_value_def equals_nodata_def fl_eq_def Let_def)

lemma integer_array_unselected:
  "filter (\<lambda>x. equals_nodata x (compared_with (nd_data (da_values integer_array)) (VInt 0)))
     (samples (nd_data (da_values integer_array))) = []"
  by (simp add: integer_array_def nodata_number_def f64_round_def equals_nodata_def fl_eq_def)

theorem nodata_idempotent_witness:
  "filter (\<lambda>x. equals_nodata x (compared_with (nd_data (da_values float_array)) (VInt 0)))
     (samples (nd_data (da_values float_array))) = [] \<and>
   \<not> contains ''int'' (dtype_name (nd_data (da_values float_array))) \<and>
   assign_nodata_priv float_array (VInt 0) = float_array \<and>
   contains ''int'' (dtype_name (nd_data (da_values integer_array))) \<and>
   dtype_name (nd_data (da_values (assign_nodata_priv integer_array (VInt 0)))) = ''float64''"
  using nodata_idempotent [of float_array "VInt 0"] nodata_idempotent [of integer_array "VInt 0"]
    float_array_unselected
  by (simp add: float_array_def integer_array_def contains_int)

text \<open>
  The claim as it was made fails on a row of the integers 1, 2 and 3 with the sentinel 0:
  no sample equals the sentinel, and the array comes back as 64-bit floats.
\<close>

theorem nodata_changes_integer_kind:
  "filter (\<lambda>x. equals_nodata x (compared_with (nd_data (da_values integer_array)) (VInt 0)))
     (samples (nd_data (da_values integer_array))) = [] \<and>
   nd_data (da_values integer_array) = I16 [1, 2, 3] \<and>
   nd_data (da_values (assign_nodata_priv integer_array (VInt 0))) = F64 [Fin 1, Fin 2, Fin 3] \<and>
   assign_nodata_priv integer_array (VInt 0) \<noteq> integer_array"
proof -
  have v: "nd_data (da_values (assign_nodata_priv integer_array (VInt 0))) = F64 [Fin 1, Fin 2, Fin 3]"
    by (simp add: assign_nodata_priv_def assign_nodata_cells_def astype_float64_def integer_array_def
        contains_int nodata_number_def f64_round_def equals_nodata_def fl_eq_def)
  have "nd_data (da_values (assign_nodata_priv integer_array (VInt 0)))
          \<noteq> nd_data (da_values integer_array)"
    unfolding v by (simp add: integer_array_def)
  then have "assign_nodata_priv integer_array (VInt 0) \<noteq> integer_array"
    by auto
  then show ?thesis
    using integer_array_unselected v by (simp add: integer_array_def)
qed

section \<open>Properties of the header reader\<close>










section \<open>The byte order of a header\<close>

text \<open>
  The keys that \<open>_from_dep\<close> stores are title-cased, so none of them is \<open>byte_order\<close>:
  the lookup on line 187 finds nothing and the body is read in the byte order of the
  machine, whatever the header says.
\<close>

lemma title_neq_byte_order: "title s \<noteq> ''byte_order''"
proof (cases s)
  case Nil
  then show ?thesis by (simp add: title_def)
next
  case (Cons c cs)
  have "hd (title_acc False (c # cs)) \<noteq> CHR ''b''"
    by (auto simp: is_lower_def is_upper_def upper_char_def lower_letters_def upper_letters_def)
  then show ?thesis unfolding title_def Cons by (metis list.sel(1))
qed

lemma parse_line_key: "parse_line line = Inr (k, v) \<Longrightarrow> k \<noteq> ''byte_order''"
  using title_neq_byte_order
  by (auto simp: parse_line_def line_key_def Let_def split: option.splits if_splits)

lemma store_line_byte_order:
  "store_line d (k, v) = Inr d' \<Longrightarrow> k \<noteq> ''byte_order'' \<Longrightarrow>
   map_of d' ''byte_order'' = map_of d ''byte_order''"
  by (auto simp: store_line_def update_conv' split: if_splits option.splits pyval.splits)

lemma read_lines_byte_order:
  "read_lines d ls = Inr d' \<Longrightarrow> map_of d' ''byte_order'' = map_of d ''byte_order''"
proof (induction ls arbitrary: d)
  case Nil
  then show ?case by simp
next
  case (Cons line rest)
  from Cons.prems obtain k v d1 where
    p: "parse_line line = Inr (k, v)" and s: "store_line d (k, v) = Inr d1"
    and r: "read_lines d1 rest = Inr d'"
    by (auto split: sum.splits)
  show ?case
    using Cons.IH [OF r] store_line_byte_order [OF s parse_line_key [OF p]] by simp
qed

lemma header_order_host:
  "from_dep_text content = Inr d \<Longrightarrow> header_order host d = host"
  using read_lines_byte_order [of "[]" "splitlines content" d]
  by (simp add: from_dep_text_def header_order_def)

lemma from_dep_text_big_endian:
  "from_dep_text big_endian_header = Inr (endian_attrs ''BIG_ENDIAN'')"
  by code_simp

lemma from_dep_text_little_endian:
  "from_dep_text little_endian_header = Inr (endian_attrs ''LITTLE_ENDIAN'')"
  by code_simp

lemma from_dep_endian:
  "decoded_cells (from_dep host endian_files ''/d/be.dep'' None)
     = Some (I16 [word_of_nat (le_value (in_order host [0, 1]))])"
  "decoded_cells (from_dep host endian_files ''/d/le.dep'' None)
     = Some (I16 [word_of_nat (le_value (in_order host [1, 0]))])"
proof -
  have o: "header_order host (endian_attrs b) = host" for b
    by (simp add: header_order_def endian_attrs_def)
  have t: "header_dtype (endian_attrs b) = Inr ''i2''" for b
    by (simp add: header_dtype_def endian_attrs_def get_dtype_def lower_def lower_char_def
        upper_letters_def lower_letters_def latin1_upper_def latin1_lower_def)
  have l: "lookup (endian_attrs b) ''Rows'' = Inr (VInt 1)"
    "lookup (endian_attrs b) ''Cols'' = Inr (VInt 1)"
    "axis_bounds (endian_attrs b) = Inr ()" for b
    by (simp_all add: lookup_def axis_bounds_def endian_attrs_def bind_err_def)
  have f: "resize 1 1 (fromfile host ''i2'' [a, b])
             = Inr \<lparr>nd_shape = [1, 1], nd_data = I16 [word_of_nat (le_value (in_order host [a, b]))]\<rparr>"
    for a b
    by (simp add: fromfile_def resize_def)
  have be: "from_dep host endian_files ''/d/be.dep'' None
              = Inr \<lparr>da_values = \<lparr>nd_shape = [1, 1],
                                     nd_data = I16 [word_of_nat (le_value (in_order host [0, 1]))]\<rparr>,
                     da_attrs = endian_attrs ''BIG_ENDIAN'',
                     da_filename = [''/d/be.dep'', ''/d/be.tas'']\<rparr>"
    unfolding from_dep_def
    by (simp add: endian_files_def endswith_def read_text_def read_bytes_def
        from_dep_text_big_endian o t l as_int_def bind_err_def Let_def f [of 0 1, simplified])
  have le: "from_dep host endian_files ''/d/le.dep'' None
              = Inr \<lparr>da_values = \<lparr>nd_shape = [1, 1],
                                     nd_data = I16 [word_of_nat (le_value (in_order host [1, 0]))]\<rparr>,
                     da_attrs = endian_attrs ''LITTLE_ENDIAN'',
                     da_filename = [''/d/le.dep'', ''/d/le.tas'']\<rparr>"
    unfolding from_dep_def
    by (simp add: endian_files_def endswith_def read_text_def read_bytes_def
        from_dep_text_little_endian o t l as_int_def bind_err_def Let_def f [of 1 0, simplified])
  show "decoded_cells (from_dep host endian_files ''/d/be.dep'' None)
          = Some (I16 [word_of_nat (le_value (in_order host [0, 1]))])"
    by (simp add: be decoded_cells_def)
  show "decoded_cells (from_dep host endian_files ''/d/le.dep'' None)
          = Some (I16 [word_of_nat (le_value (in_order host [1, 0]))])"
    by (simp add: le decoded_cells_def)
qed

text \<open>
  C3. The claim: a body read under a header that says \<open>BIG_ENDIAN\<close> gives the values
  that its byte-swapped body gives under the same header with \<open>LITTLE_ENDIAN\<close>. The code
  reads both bodies in the byte order of the machine: the two bytes 0, 1 under the
  big-endian header and their swap 1, 0 under the little-endian header give 256 and 1 on a
  little-endian machine, and 1 and 256 on a big-endian machine.
\<close>

theorem byte_order_ignored:
  "byteswap 2 [0, 1] = [1, 0] \<and>
   decoded_cells (from_dep LittleEndian endian_files ''/d/be.dep'' None) = Some (I16 [256]) \<and>
   decoded_cells (from_dep LittleEndian endian_files ''/d/le.dep'' None) = Some (I16 [1]) \<and>
   decoded_cells (from_dep BigEndian endian_files ''/d/be.dep'' None) = Some (I16 [1]) \<and>
   decoded_cells (from_dep BigEndian endian_files ''/d/le.dep'' None) = Some (I16 [256])"
  by (simp add: from_dep_endian in_order_def byteswap_def)

end
